theory Spec2Isabelle
  imports Complex_Main "HOL-Library.AList"
begin

section \<open>Values, errors and the HTTP transport\<close>

text \<open>
  Python values that travel through the client. A dictionary is an association list in
  insertion order; a float is the rational it denotes (the client only passes floats on).
\<close>

datatype pyval =
    PNone
  | PBool bool
  | PInt int
  | PFloat rat
  | PStr string
  | PList "pyval list"
  | PDict "(string \<times> pyval) list"

type_synonym dict = "(string \<times> pyval) list"

text \<open>
  Exceptions are values: a class and the message that \<open>str(e)\<close> gives. Of the classes
  below only \<open>KeyboardInterrupt\<close> is not a subclass of Python's \<open>Exception\<close>, so an
  \<open>except Exception\<close> clause does not catch it.
\<close>

datatype exc_class =
    FileNotFoundError
  | IsADirectoryError
  | ConnectionError
  | Timeout
  | MissingSchema
  | JSONDecodeError
  | KeyError
  | KeyboardInterrupt

datatype py_error = PyError exc_class string

fun is_Exception :: "py_error \<Rightarrow> bool" where
  "is_Exception (PyError c msg) = (c \<noteq> KeyboardInterrupt)"

fun str_of_error :: "py_error \<Rightarrow> string" where
  "str_of_error (PyError c msg) = msg"

datatype http_method = GET | POST | DELETE | HEAD

datatype req_body =
    NoBody
  | JsonBody pyval
  | FilesBody "(string \<times> string) list"

record request =
  req_method :: http_method
  req_url :: string
  req_body :: req_body
  req_stream :: bool

text \<open>
  A response of the \<open>requests\<close> library, as far as the client reads it: the status code,
  what \<open>response.json()\<close> gives (a parsed body or an exception) and the byte lines that
  \<open>response.iter_lines()\<close> produces, in arrival order.
\<close>

record response =
  status_code :: int
  resp_json :: "py_error + pyval"
  resp_lines :: "string list"

text \<open>The network is a parameter: a request is answered by a response or by an exception.\<close>

type_synonym transport = "request \<Rightarrow> py_error + response"

datatype fs_entry = RegularFile string | Directory

section \<open>The client object and the state of the world\<close>

record ollama =
  base_url :: string
  api_url :: string

text \<open>
  The state threaded through every method: the fields of \<open>self\<close>, the requests handed to
  the transport so far, the lines printed, and the local file system.
\<close>

record state =
  client :: ollama
  sent :: "request list"
  stdout :: "string list"
  files :: "string \<Rightarrow> fs_entry option"

text \<open>\<open>Ollama.__init__\<close>: \<open>self.base_url = base_url; self.api_url = f"{base_url}/api"\<close>.\<close>

definition Ollama_init :: "string \<Rightarrow> ollama" where
  "Ollama_init base = \<lparr>base_url = base, api_url = base @ ''/api''\<rparr>"

definition default_base_url :: string where
  "default_base_url = ''http://localhost:11434''"

text \<open>
  One call into \<open>requests\<close> (\<open>requests.post\<close>, \<open>get\<close>, \<open>delete\<close>, \<open>head\<close>): the request is
  handed to the transport and recorded.
\<close>

definition requests_send :: "transport \<Rightarrow> request \<Rightarrow> state \<Rightarrow> (py_error + response) \<times> state" where
  "requests_send net req s = (net req, s\<lparr>sent := sent s @ [req]\<rparr>)"

definition post_request ::
  "transport \<Rightarrow> string \<Rightarrow> pyval \<Rightarrow> state \<Rightarrow> (py_error + int \<times> response) \<times> state" where
  "post_request net endpoint data s =
     (let url = api_url (client s) @ ''/'' @ endpoint;
          (r, s') = requests_send net
             \<lparr>req_method = POST, req_url = url, req_body = JsonBody data, req_stream = False\<rparr> s
      in case r of
           Inl e \<Rightarrow> (Inl e, s')
         | Inr response \<Rightarrow> (Inr (status_code response, response), s'))"

definition get_request ::
  "transport \<Rightarrow> string \<Rightarrow> state \<Rightarrow> (py_error + int \<times> response) \<times> state" where
  "get_request net endpoint s =
     (let url = api_url (client s) @ ''/'' @ endpoint;
          (r, s') = requests_send net
             \<lparr>req_method = GET, req_url = url, req_body = NoBody, req_stream = False\<rparr> s
      in case r of
           Inl e \<Rightarrow> (Inl e, s')
         | Inr response \<Rightarrow> (Inr (status_code response, response), s'))"

definition delete_request ::
  "transport \<Rightarrow> string \<Rightarrow> pyval \<Rightarrow> state \<Rightarrow> (py_error + int \<times> response) \<times> state" where
  "delete_request net endpoint data s =
     (let url = api_url (client s) @ ''/'' @ endpoint;
          (r, s') = requests_send net
             \<lparr>req_method = DELETE, req_url = url, req_body = JsonBody data, req_stream = False\<rparr> s
      in case r of
           Inl e \<Rightarrow> (Inl e, s')
         | Inr response \<Rightarrow> (Inr (status_code response, response), s'))"

definition head_request ::
  "transport \<Rightarrow> string \<Rightarrow> state \<Rightarrow> (py_error + bool) \<times> state" where
  "head_request net endpoint s =
     (let url = api_url (client s) @ ''/'' @ endpoint;
          (r, s') = requests_send net
             \<lparr>req_method = HEAD, req_url = url, req_body = NoBody, req_stream = False\<rparr> s
      in case r of
           Inl e \<Rightarrow> (Inl e, s')
         | Inr response \<Rightarrow> (Inr (status_code response = 200), s'))"

section \<open>Option filtering\<close>

text \<open>\<open>options or {}\<close>: \<open>None\<close> and the empty dictionary are both falsy.\<close>

definition or_empty :: "dict option \<Rightarrow> dict" where
  "or_empty options = (case options of None \<Rightarrow> [] | Some d \<Rightarrow> if d = [] then [] else d)"

text \<open>
  The comprehension \<open>{key: options[key] for key in options if key in allowed_options}\<close>:
  the keys are visited in order, each kept key is looked up (a missing key would raise
  \<open>KeyError\<close>) and stored in the dictionary under construction.
\<close>

fun comprehension :: "string list \<Rightarrow> dict \<Rightarrow> string list \<Rightarrow> dict \<Rightarrow> py_error + dict" where
  "comprehension allowed options [] acc = Inr acc"
| "comprehension allowed options (key # keys) acc =
     (if key \<in> set allowed
      then (case map_of options key of
              None \<Rightarrow> Inl (PyError KeyError key)
            | Some v \<Rightarrow> comprehension allowed options keys (AList.update key v acc))
      else comprehension allowed options keys acc)"

definition validate_options :: "string list \<Rightarrow> dict \<Rightarrow> py_error + dict" where
  "validate_options allowed options = comprehension allowed options (map fst options) []"

definition allowed_options :: "string list" where
  "allowed_options =
     [''num_keep'', ''seed'', ''num_predict'', ''top_k'', ''top_p'', ''tfs_z'', ''typical_p'',
      ''repeat_last_n'', ''temperature'', ''repeat_penalty'', ''presence_penalty'',
      ''frequency_penalty'', ''mirostat'', ''mirostat_tau'', ''mirostat_eta'',
      ''penalize_newline'', ''stop'', ''numa'', ''num_ctx'', ''num_batch'', ''num_gqa'',
      ''num_gpu'', ''main_gpu'', ''low_vram'', ''f16_kv'', ''logits_all'', ''vocab_only'',
      ''use_mmap'', ''use_mlock'', ''embedding_only'', ''rope_frequency_base'',
      ''rope_frequency_scale'', ''num_thread'']"

section \<open>The operations\<close>

definition generate_completion ::
  "transport \<Rightarrow> pyval \<Rightarrow> pyval \<Rightarrow> pyval \<Rightarrow> dict option \<Rightarrow> pyval \<Rightarrow> pyval \<Rightarrow> pyval \<Rightarrow> pyval \<Rightarrow> pyval
     \<Rightarrow> state \<Rightarrow> (py_error + int \<times> response) \<times> state" where
  "generate_completion net model prompt format options system template context stream raw s =
     (let endpoint = ''generate'';
          options' = or_empty options
      in case validate_options allowed_options options' of
           Inl e \<Rightarrow> (Inl e, s)
         | Inr validated_options \<Rightarrow>
             post_request net endpoint
               (PDict [(''model'', model), (''prompt'', prompt), (''format'', format),
                       (''options'', PDict validated_options), (''system'', system),
                       (''template'', template), (''context'', context),
                       (''stream'', stream), (''raw'', raw)]) s)"

definition generate_chat_completion ::
  "transport \<Rightarrow> pyval \<Rightarrow> pyval \<Rightarrow> pyval \<Rightarrow> dict option \<Rightarrow> pyval \<Rightarrow> pyval
     \<Rightarrow> state \<Rightarrow> (py_error + int \<times> response) \<times> state" where
  "generate_chat_completion net model messages format options template stream s =
     (let endpoint = ''chat'';
          options' = or_empty options
      in post_request net endpoint
           (PDict [(''model'', model), (''messages'', messages), (''format'', format),
                   (''options'', PDict options'), (''template'', template),
                   (''stream'', stream)]) s)"

definition create_model ::
  "transport \<Rightarrow> pyval \<Rightarrow> pyval \<Rightarrow> pyval \<Rightarrow> pyval \<Rightarrow> state \<Rightarrow> (py_error + int \<times> response) \<times> state" where
  "create_model net name modelfile stream path s =
     post_request net ''create''
       (PDict [(''name'', name), (''modelfile'', modelfile), (''stream'', stream),
               (''path'', path)]) s"

definition blob_exists :: "transport \<Rightarrow> string \<Rightarrow> state \<Rightarrow> (py_error + bool) \<times> state" where
  "blob_exists net digest s = (let endpoint = ''blobs/'' @ digest in head_request net endpoint s)"

text \<open>\<open>os.path.exists\<close> and \<open>open(file_path, "rb")\<close> on the modelled file system.\<close>

definition os_path_exists :: "state \<Rightarrow> string \<Rightarrow> bool" where
  "os_path_exists s p = (files s p \<noteq> None)"

definition open_rb :: "state \<Rightarrow> string \<Rightarrow> py_error + string" where
  "open_rb s p =
     (case files s p of
        None \<Rightarrow> Inl (PyError FileNotFoundError p)
      | Some Directory \<Rightarrow> Inl (PyError IsADirectoryError p)
      | Some (RegularFile bytes) \<Rightarrow> Inr bytes)"

text \<open>
  The handler \<open>except Exception as e: print(...); return 500\<close> of \<open>create_blob\<close>; an
  exception outside \<open>Exception\<close> passes through it.
\<close>

definition upload_handler :: "py_error \<Rightarrow> state \<Rightarrow> (py_error + int) \<times> state" where
  "upload_handler e s =
     (if is_Exception e
      then (Inr 500, s\<lparr>stdout := stdout s @ [''Error uploading blob: '' @ str_of_error e]\<rparr>)
      else (Inl e, s))"

definition create_blob :: "transport \<Rightarrow> string \<Rightarrow> string \<Rightarrow> state \<Rightarrow> (py_error + int) \<times> state" where
  "create_blob net digest file_path s =
     (let endpoint = ''blobs/'' @ digest
      in if \<not> os_path_exists s file_path
         then (Inl (PyError FileNotFoundError (''File not found: '' @ file_path)), s)
         else (case open_rb s file_path of
                 Inl e \<Rightarrow> upload_handler e s
               | Inr file \<Rightarrow>
                   (let (r, s') = requests_send net
                          \<lparr>req_method = POST, req_url = endpoint,
                           req_body = FilesBody [(''file'', file)], req_stream = False\<rparr> s
                    in case r of
                         Inl e \<Rightarrow> upload_handler e s'
                       | Inr response \<Rightarrow> (Inr (status_code response), s'))))"

definition list_local_models :: "transport \<Rightarrow> state \<Rightarrow> (py_error + int \<times> response) \<times> state" where
  "list_local_models net s = get_request net ''tags'' s"

definition show_model_info ::
  "transport \<Rightarrow> pyval \<Rightarrow> state \<Rightarrow> (py_error + int \<times> response) \<times> state" where
  "show_model_info net name s = post_request net ''show'' (PDict [(''name'', name)]) s"

definition copy_model ::
  "transport \<Rightarrow> pyval \<Rightarrow> pyval \<Rightarrow> state \<Rightarrow> (py_error + int \<times> response) \<times> state" where
  "copy_model net source destination s =
     post_request net ''copy'' (PDict [(''source'', source), (''destination'', destination)]) s"

definition delete_model ::
  "transport \<Rightarrow> pyval \<Rightarrow> state \<Rightarrow> (py_error + int \<times> response) \<times> state" where
  "delete_model net name s = delete_request net ''delete'' (PDict [(''name'', name)]) s"

definition generate_embeddings ::
  "transport \<Rightarrow> pyval \<Rightarrow> pyval \<Rightarrow> dict option \<Rightarrow> state \<Rightarrow> (py_error + int \<times> response) \<times> state" where
  "generate_embeddings net model prompt additional_options s =
     (let endpoint = ''embeddings'';
          additional_options' = or_empty additional_options;
          allowed = []
      in case validate_options allowed additional_options' of
           Inl e \<Rightarrow> (Inl e, s)
         | Inr validated_options \<Rightarrow>
             post_request net endpoint
               (PDict [(''model'', model), (''prompt'', prompt),
                       (''options'', PDict validated_options)]) s)"

section \<open>Pull and push: generator functions\<close>

text \<open>
  The bodies of \<open>pull_model\<close> and \<open>push_model\<close> contain \<open>yield\<close>, so in Python each is a
  generator function: a call runs none of the body and returns a generator object. The
  frame of that generator is either not started (it holds the arguments), suspended at the
  \<open>yield\<close> (it holds the lines not yet visited), or finished.
\<close>

datatype gen_frame =
    Created string pyval pyval bool
  | Suspended "string list"
  | Finished

text \<open>What one \<open>next(g)\<close> gives: a yielded line, \<open>StopIteration\<close> with the value of the
  \<open>return\<close> statement (if any), or a raised exception.\<close>

datatype outcome =
    Yielded string
  | StopIteration "(int \<times> pyval) option"
  | Raised py_error

text \<open>What the documentation of the two methods promises as a result: a generator or a
  pair.\<close>

datatype call_result =
    ResGenerator gen_frame
  | ResTuple int pyval

text \<open>\<open>for line in response.iter_lines(): if line: yield line\<close>, run up to the next
  \<open>yield\<close>.\<close>

fun next_nonempty :: "string list \<Rightarrow> (string \<times> string list) option" where
  "next_nonempty [] = None"
| "next_nonempty (line # rest) = (if line \<noteq> [] then Some (line, rest) else next_nonempty rest)"

definition resume_loop :: "string list \<Rightarrow> outcome \<times> gen_frame" where
  "resume_loop lines =
     (case next_nonempty lines of
        None \<Rightarrow> (StopIteration None, Finished)
      | Some (line, rest) \<Rightarrow> (Yielded line, Suspended rest))"

fun gen_next :: "transport \<Rightarrow> gen_frame \<Rightarrow> state \<Rightarrow> (outcome \<times> gen_frame) \<times> state" where
  "gen_next net (Created endpoint name insecure stream) s =
     (let parameters = PDict [(''name'', name), (''insecure'', insecure), (''stream'', PBool stream)];
          (r, s') = requests_send net
             \<lparr>req_method = POST, req_url = api_url (client s) @ ''/'' @ endpoint,
              req_body = JsonBody parameters, req_stream = stream\<rparr> s
      in case r of
           Inl e \<Rightarrow> ((Raised e, Finished), s')
         | Inr response \<Rightarrow>
             if stream then (resume_loop (resp_lines response), s')
             else (case resp_json response of
                     Inl e \<Rightarrow> ((Raised e, Finished), s')
                   | Inr body \<Rightarrow> ((StopIteration (Some (status_code response, body)), Finished), s')))"
| "gen_next net (Suspended lines) s = (resume_loop lines, s)"
| "gen_next net Finished s = ((StopIteration None, Finished), s)"

definition pull_model :: "pyval \<Rightarrow> pyval \<Rightarrow> bool \<Rightarrow> state \<Rightarrow> call_result \<times> state" where
  "pull_model name insecure stream s = (ResGenerator (Created ''pull'' name insecure stream), s)"

definition push_model :: "pyval \<Rightarrow> pyval \<Rightarrow> bool \<Rightarrow> state \<Rightarrow> call_result \<times> state" where
  "push_model name insecure stream s = (ResGenerator (Created ''push'' name insecure stream), s)"

text \<open>Consuming a generator to its end, as \<open>list(g)\<close> or a \<open>for\<close> loop does: the lines
  yielded, how the iteration ended, and the state afterwards.\<close>

function exhaust :: "transport \<Rightarrow> gen_frame \<Rightarrow> state \<Rightarrow> string list \<times> outcome \<times> state" where
  "exhaust net g s =
     (case gen_next net g s of
        ((Yielded line, g'), s') \<Rightarrow>
          (case exhaust net g' s' of (ls, fin, s'') \<Rightarrow> (line # ls, fin, s''))
      | ((StopIteration v, g'), s') \<Rightarrow> ([], StopIteration v, s')
      | ((Raised e, g'), s') \<Rightarrow> ([], Raised e, s'))"
  by pat_completeness auto

termination exhaust
proof (relation "measures [\<lambda>(net, g, s). (case g of Created _ _ _ _ \<Rightarrow> 1 | _ \<Rightarrow> (0::nat)),
                           \<lambda>(net, g, s). (case g of Suspended ls \<Rightarrow> length ls | _ \<Rightarrow> 0)]",
       goal_cases)
  case 1
  show ?case by simp
next
  case (2 net g s x1 s' x2 g' l)
  have shorter: "next_nonempty ls = Some (a, rest) \<Longrightarrow> length rest < length ls" for ls a rest
    by (induction ls) (auto split: if_splits)
  have loop: "\<exists>rest. f = Suspended rest \<and> length rest < length ls"
    if "resume_loop ls = (Yielded a, f)" for ls a f
    using that by (auto simp: resume_loop_def split: option.splits dest: shorter)
  from 2 have step: "gen_next net g s = ((Yielded l, g'), s')"
    by simp
  show ?case
  proof (cases g)
    case (Created endpoint name insecure stream)
    with step obtain rest where "g' = Suspended rest"
      by (auto simp: requests_send_def Let_def split: sum.splits if_splits dest: loop)
    with Created show ?thesis by simp
  next
    case (Suspended ls)
    with step obtain rest where "g' = Suspended rest" "length rest < length ls"
      by (auto dest: loop)
    with Suspended show ?thesis by simp
  next
    case Finished
    with step show ?thesis by simp
  qed
qed

text \<open>
  A call of any method of the client, with its arguments. \<open>run_call\<close> performs the call;
  for the two generator functions it also consumes the generator that the call returns.
\<close>

datatype call =
    GenerateCompletion pyval pyval pyval "dict option" pyval pyval pyval pyval pyval
  | GenerateChatCompletion pyval pyval pyval "dict option" pyval pyval
  | CreateModel pyval pyval pyval pyval
  | BlobExists string
  | CreateBlob string string
  | ListLocalModels
  | ShowModelInfo pyval
  | CopyModel pyval pyval
  | DeleteModel pyval
  | PullModel pyval pyval bool
  | PushModel pyval pyval bool
  | GenerateEmbeddings pyval pyval "dict option"

fun consume :: "transport \<Rightarrow> call_result \<times> state \<Rightarrow> state" where
  "consume net (ResGenerator g, s) = snd (snd (exhaust net g s))"
| "consume net (ResTuple status body, s) = s"

fun run_call :: "transport \<Rightarrow> call \<Rightarrow> state \<Rightarrow> state" where
  "run_call net (GenerateCompletion model prompt format options system template context stream raw) s =
     snd (generate_completion net model prompt format options system template context stream raw s)"
| "run_call net (GenerateChatCompletion model messages format options template stream) s =
     snd (generate_chat_completion net model messages format options template stream s)"
| "run_call net (CreateModel name modelfile stream path) s =
     snd (create_model net name modelfile stream path s)"
| "run_call net (BlobExists digest) s = snd (blob_exists net digest s)"
| "run_call net (CreateBlob digest file_path) s = snd (create_blob net digest file_path s)"
| "run_call net ListLocalModels s = snd (list_local_models net s)"
| "run_call net (ShowModelInfo name) s = snd (show_model_info net name s)"
| "run_call net (CopyModel source destination) s = snd (copy_model net source destination s)"
| "run_call net (DeleteModel name) s = snd (delete_model net name s)"
| "run_call net (PullModel name insecure stream) s = consume net (pull_model name insecure stream s)"
| "run_call net (PushModel name insecure stream) s = consume net (push_model name insecure stream s)"
| "run_call net (GenerateEmbeddings model prompt additional_options) s =
     snd (generate_embeddings net model prompt additional_options s)"

fun run_calls :: "transport \<Rightarrow> call list \<Rightarrow> state \<Rightarrow> state" where
  "run_calls net [] s = s"
| "run_calls net (c # cs) s = run_calls net cs (run_call net c s)"

text \<open>The endpoint string each method names.\<close>

fun endpoint_of :: "call \<Rightarrow> string" where
  "endpoint_of (GenerateCompletion _ _ _ _ _ _ _ _ _) = ''generate''"
| "endpoint_of (GenerateChatCompletion _ _ _ _ _ _) = ''chat''"
| "endpoint_of (CreateModel _ _ _ _) = ''create''"
| "endpoint_of (BlobExists digest) = ''blobs/'' @ digest"
| "endpoint_of (CreateBlob digest _) = ''blobs/'' @ digest"
| "endpoint_of ListLocalModels = ''tags''"
| "endpoint_of (ShowModelInfo _) = ''show''"
| "endpoint_of (CopyModel _ _) = ''copy''"
| "endpoint_of (DeleteModel _) = ''delete''"
| "endpoint_of (PullModel _ _ _) = ''pull''"
| "endpoint_of (PushModel _ _ _) = ''push''"
| "endpoint_of (GenerateEmbeddings _ _ _) = ''embeddings''"

fun is_create_blob :: "call \<Rightarrow> bool" where
  "is_create_blob (CreateBlob _ _) = True"
| "is_create_blob _ = False"

text \<open>The requests a step from \<open>s\<close> to \<open>s'\<close> handed to the transport.\<close>

definition new_requests :: "state \<Rightarrow> state \<Rightarrow> request list" where
  "new_requests s s' = drop (length (sent s)) (sent s')"

text \<open>Reading a field of a JSON request body.\<close>

fun json_field :: "string \<Rightarrow> request \<Rightarrow> pyval option" where
  "json_field key req =
     (case req_body req of JsonBody (PDict d) \<Rightarrow> map_of d key | _ \<Rightarrow> None)"

section \<open>Example inputs\<close>

text \<open>
  A client for the default address, a file system with one regular file and one directory,
  and three servers: one that answers every request with status 200, one that answers with
  status 404, and one that cannot be reached.
\<close>

definition example_files :: "string \<Rightarrow> fs_entry option" where
  "example_files p =
     (if p = ''model.bin'' then Some (RegularFile ''GGUF'')
      else if p = ''models'' then Some Directory
      else None)"

definition example_state :: state where
  "example_state =
     \<lparr>client = Ollama_init default_base_url, sent = [], stdout = [], files = example_files\<rparr>"

definition answering_transport :: transport where
  "answering_transport req =
     Inr \<lparr>status_code = 200,
          resp_json = Inr (PDict [(''status'', PStr ''success'')]),
          resp_lines = [''pulling manifest'', [], ''success'', []]\<rparr>"

definition not_found_transport :: transport where
  "not_found_transport req =
     Inr \<lparr>status_code = 404,
          resp_json = Inr (PDict [(''error'', PStr ''not found'')]),
          resp_lines = [''not found'']\<rparr>"

definition refusing_transport :: transport where
  "refusing_transport req = Inl (PyError ConnectionError ''Connection refused'')"

section \<open>Option filtering: what the comprehension computes\<close>

lemma update_fresh: "k \<notin> fst ` set al \<Longrightarrow> AList.update k v al = al @ [(k, v)]"
  by (induction al) auto

lemma comprehension_map_of:
  "set keys \<subseteq> fst ` set options \<Longrightarrow>
     \<exists>d. comprehension allowed options keys acc = Inr d \<and>
         map_of d = (\<lambda>k. if k \<in> set keys \<and> k \<in> set allowed then map_of options k else map_of acc k)"
proof (induction keys arbitrary: acc)
  case Nil
  then show ?case by simp
next
  case (Cons key keys)
  then have sub: "set keys \<subseteq> fst ` set options" and "key \<in> fst ` set options" by auto
  then obtain v where v: "map_of options key = Some v"
    by (metis domD dom_map_of_conv_image_fst)
  show ?case
  proof (cases "key \<in> set allowed")
    case True
    from Cons.IH [OF sub, of "AList.update key v acc"] obtain d where
      d: "comprehension allowed options keys (AList.update key v acc) = Inr d"
         "map_of d = (\<lambda>k. if k \<in> set keys \<and> k \<in> set allowed then map_of options k
                           else map_of (AList.update key v acc) k)"
      by blast
    have "map_of d = (\<lambda>k. if k \<in> set (key # keys) \<and> k \<in> set allowed then map_of options k else map_of acc k)"
      using d(2) True v by (auto simp: update_conv' fun_eq_iff)
    with d(1) True v show ?thesis by simp
  next
    case False
    from Cons.IH [OF sub, of acc] obtain d where
      d: "comprehension allowed options keys acc = Inr d"
         "map_of d = (\<lambda>k. if k \<in> set keys \<and> k \<in> set allowed then map_of options k else map_of acc k)"
      by blast
    have "map_of d = (\<lambda>k. if k \<in> set (key # keys) \<and> k \<in> set allowed then map_of options k else map_of acc k)"
      using d(2) False by (auto simp: fun_eq_iff)
    with d(1) False show ?thesis by simp
  qed
qed

lemma validate_options_map_of:
  "\<exists>d. validate_options allowed options = Inr d \<and>
       map_of d = (\<lambda>k. if k \<in> set allowed then map_of options k else None)"
proof -
  from comprehension_map_of [of "map fst options" options allowed "[]"]
  obtain d where d: "comprehension allowed options (map fst options) [] = Inr d"
    "map_of d = (\<lambda>k. if k \<in> set (map fst options) \<and> k \<in> set allowed then map_of options k else map_of [] k)"
    by auto
  have "map_of d = (\<lambda>k. if k \<in> set allowed then map_of options k else None)"
  proof -
    have "\<And>k. k \<notin> set (map fst options) \<Longrightarrow> map_of options k = None"
      by (simp add: map_of_eq_None_iff)
    then show ?thesis unfolding d(2) by (auto simp: fun_eq_iff)
  qed
  with d(1) show ?thesis by (simp add: validate_options_def)
qed

lemma comprehension_filter:
  "distinct (map fst (pre @ suf)) \<Longrightarrow>
     comprehension allowed (pre @ suf) (map fst suf) (filter (\<lambda>(k, v). k \<in> set allowed) pre)
       = Inr (filter (\<lambda>(k, v). k \<in> set allowed) (pre @ suf))"
proof (induction suf arbitrary: pre)
  case Nil
  then show ?case by simp
next
  case (Cons p suf)
  obtain k v where p: "p = (k, v)" by (cases p)
  from Cons.prems have dist: "distinct (map fst ((pre @ [p]) @ suf))" by simp
  have look: "map_of (pre @ p # suf) k = Some v"
    using Cons.prems p by (auto simp: map_add_Some_iff map_of_eq_None_iff image_iff)
  have fresh: "k \<notin> fst ` set (filter (\<lambda>(k, v). k \<in> set allowed) pre)"
    using Cons.prems p by (auto simp: image_iff)
  have step: "AList.update k v (filter (\<lambda>(k, v). k \<in> set allowed) pre)
                = filter (\<lambda>(k, v). k \<in> set allowed) pre @ [(k, v)]"
    by (rule update_fresh [OF fresh])
  from Cons.IH [OF dist] show ?case
    using p look step by (simp split: if_splits)
qed

lemma validate_options_filter:
  "distinct (map fst options) \<Longrightarrow>
     validate_options allowed options = Inr (filter (\<lambda>(k, v). k \<in> set allowed) options)"
  using comprehension_filter [of "[]" options allowed] by (simp add: validate_options_def)

lemma validate_options_empty_allowlist: "validate_options [] options = Inr []"
  using validate_options_map_of [of "[]" options] by auto

section \<open>Requests and generators: auxiliary facts\<close>

declare exhaust.simps [simp del]

lemma new_requests_append [simp]: "new_requests s (s\<lparr>sent := sent s @ rs\<rparr>) = rs"
  by (simp add: new_requests_def)

lemma new_requests_same [simp]: "new_requests s s = []"
  by (simp add: new_requests_def)

lemma post_request_eq:
  "post_request net endpoint data s =
     (case net \<lparr>req_method = POST, req_url = api_url (client s) @ ''/'' @ endpoint,
                req_body = JsonBody data, req_stream = False\<rparr> of
        Inl e \<Rightarrow> Inl e
      | Inr response \<Rightarrow> Inr (status_code response, response),
      s\<lparr>sent := sent s @ [\<lparr>req_method = POST, req_url = api_url (client s) @ ''/'' @ endpoint,
                req_body = JsonBody data, req_stream = False\<rparr>]\<rparr>)"
  by (simp add: post_request_def requests_send_def split: sum.splits)

lemma get_request_eq:
  "get_request net endpoint s =
     (case net \<lparr>req_method = GET, req_url = api_url (client s) @ ''/'' @ endpoint,
                req_body = NoBody, req_stream = False\<rparr> of
        Inl e \<Rightarrow> Inl e
      | Inr response \<Rightarrow> Inr (status_code response, response),
      s\<lparr>sent := sent s @ [\<lparr>req_method = GET, req_url = api_url (client s) @ ''/'' @ endpoint,
                req_body = NoBody, req_stream = False\<rparr>]\<rparr>)"
  by (simp add: get_request_def requests_send_def split: sum.splits)

lemma delete_request_eq:
  "delete_request net endpoint data s =
     (case net \<lparr>req_method = DELETE, req_url = api_url (client s) @ ''/'' @ endpoint,
                req_body = JsonBody data, req_stream = False\<rparr> of
        Inl e \<Rightarrow> Inl e
      | Inr response \<Rightarrow> Inr (status_code response, response),
      s\<lparr>sent := sent s @ [\<lparr>req_method = DELETE, req_url = api_url (client s) @ ''/'' @ endpoint,
                req_body = JsonBody data, req_stream = False\<rparr>]\<rparr>)"
  by (simp add: delete_request_def requests_send_def split: sum.splits)

lemma head_request_eq:
  "head_request net endpoint s =
     (case net \<lparr>req_method = HEAD, req_url = api_url (client s) @ ''/'' @ endpoint,
                req_body = NoBody, req_stream = False\<rparr> of
        Inl e \<Rightarrow> Inl e
      | Inr response \<Rightarrow> Inr (status_code response = 200),
      s\<lparr>sent := sent s @ [\<lparr>req_method = HEAD, req_url = api_url (client s) @ ''/'' @ endpoint,
                req_body = NoBody, req_stream = False\<rparr>]\<rparr>)"
  by (simp add: head_request_def requests_send_def split: sum.splits)

lemma exhaust_Suspended:
  "exhaust net (Suspended ls) s = (filter (\<lambda>l. l \<noteq> []) ls, StopIteration None, s)"
proof (induction ls)
  case Nil
  show ?case by (subst exhaust.simps) (simp add: resume_loop_def)
next
  case (Cons l ls)
  show ?case
  proof (cases "l = []")
    case True
    have "exhaust net (Suspended (l # ls)) s = exhaust net (Suspended ls) s"
      using True
      by (subst exhaust.simps, subst (2) exhaust.simps) (simp add: resume_loop_def)
    with Cons True show ?thesis by simp
  next
    case False
    then show ?thesis
      by (subst exhaust.simps) (simp add: resume_loop_def Cons)
  qed
qed

lemma resume_loop_cases:
  "resume_loop ls = (StopIteration None, Finished) \<or>
   (\<exists>l rest. resume_loop ls = (Yielded l, Suspended rest) \<and>
       l # filter (\<lambda>l. l \<noteq> []) rest = filter (\<lambda>l. l \<noteq> []) ls)"
  by (induction ls) (auto simp: resume_loop_def split: option.splits)

lemma exhaust_Created_stream:
  assumes "net \<lparr>req_method = POST, req_url = api_url (client s) @ ''/'' @ endpoint,
              req_body = JsonBody (PDict [(''name'', name), (''insecure'', insecure),
                                          (''stream'', PBool True)]),
              req_stream = True\<rparr> = Inr response"
  shows "exhaust net (Created endpoint name insecure True) s =
           (filter (\<lambda>l. l \<noteq> []) (resp_lines response), StopIteration None,
            s\<lparr>sent := sent s @ [\<lparr>req_method = POST, req_url = api_url (client s) @ ''/'' @ endpoint,
              req_body = JsonBody (PDict [(''name'', name), (''insecure'', insecure),
                                          (''stream'', PBool True)]),
              req_stream = True\<rparr>]\<rparr>)"
proof -
  from resume_loop_cases [of "resp_lines response"] show ?thesis
  proof
    assume fin: "resume_loop (resp_lines response) = (StopIteration None, Finished)"
    then have "filter (\<lambda>l. l \<noteq> []) (resp_lines response) = []"
      using resume_loop_cases [of "resp_lines response"] exhaust_Suspended [of net "resp_lines response" s]
      by (subst (asm) exhaust.simps) (auto simp: resume_loop_def split: option.splits)
    with fin assms show ?thesis
      by (subst exhaust.simps) (simp add: requests_send_def)
  next
    assume "\<exists>l rest. resume_loop (resp_lines response) = (Yielded l, Suspended rest) \<and>
       l # filter (\<lambda>l. l \<noteq> []) rest = filter (\<lambda>l. l \<noteq> []) (resp_lines response)"
    then obtain l rest where
      "resume_loop (resp_lines response) = (Yielded l, Suspended rest)"
      "l # filter (\<lambda>l. l \<noteq> []) rest = filter (\<lambda>l. l \<noteq> []) (resp_lines response)"
      by blast
    with assms show ?thesis
      by (subst exhaust.simps) (simp add: requests_send_def exhaust_Suspended)
  qed
qed

lemma exhaust_Created_state:
  "snd (snd (exhaust net (Created endpoint name insecure stream) s)) =
     s\<lparr>sent := sent s @ [\<lparr>req_method = POST, req_url = api_url (client s) @ ''/'' @ endpoint,
              req_body = JsonBody (PDict [(''name'', name), (''insecure'', insecure),
                                          (''stream'', PBool stream)]),
              req_stream = stream\<rparr>]\<rparr>"
proof (cases "net \<lparr>req_method = POST, req_url = api_url (client s) @ ''/'' @ endpoint,
              req_body = JsonBody (PDict [(''name'', name), (''insecure'', insecure),
                                          (''stream'', PBool stream)]),
              req_stream = stream\<rparr>")
  case (Inl e)
  then show ?thesis
    by (subst exhaust.simps) (simp add: requests_send_def)
next
  case (Inr response)
  show ?thesis
  proof (cases stream)
    case True
    with Inr show ?thesis by (simp add: exhaust_Created_stream)
  next
    case False
    with Inr show ?thesis
      by (subst exhaust.simps) (simp add: requests_send_def Let_def split: sum.splits)
  qed
qed

lemma exhaust_client: "client (snd (snd (exhaust net g s))) = client s"
proof (cases g)
  case (Created endpoint name insecure stream)
  then show ?thesis by (simp add: exhaust_Created_state)
next
  case (Suspended ls)
  then show ?thesis by (simp add: exhaust_Suspended)
next
  case Finished
  then show ?thesis by (subst exhaust.simps) simp
qed

lemma exhaust_Created_no_stream:
  assumes "net \<lparr>req_method = POST, req_url = api_url (client s) @ ''/'' @ endpoint,
              req_body = JsonBody (PDict [(''name'', name), (''insecure'', insecure),
                                          (''stream'', PBool False)]),
              req_stream = False\<rparr> = Inr response"
    and "resp_json response = Inr body"
  shows "exhaust net (Created endpoint name insecure False) s =
           ([], StopIteration (Some (status_code response, body)),
            s\<lparr>sent := sent s @ [\<lparr>req_method = POST, req_url = api_url (client s) @ ''/'' @ endpoint,
              req_body = JsonBody (PDict [(''name'', name), (''insecure'', insecure),
                                          (''stream'', PBool False)]),
              req_stream = False\<rparr>]\<rparr>)"
  using assms by (subst exhaust.simps) (simp add: requests_send_def Let_def)

lemma run_call_client: "client (run_call net c s) = client s"
proof (cases c)
  case (GenerateCompletion model prompt fmt options system template ctx stream raw)
  then show ?thesis
    by (simp add: generate_completion_def post_request_eq Let_def split: sum.splits)
next
  case (GenerateEmbeddings model prompt additional_options)
  then show ?thesis
    by (simp add: generate_embeddings_def post_request_eq Let_def split: sum.splits)
next
  case (CreateBlob digest file_path)
  then show ?thesis
    by (simp add: create_blob_def upload_handler_def requests_send_def Let_def
          split: sum.splits)
next
  case (PullModel name insecure stream)
  then show ?thesis by (simp add: pull_model_def exhaust_client)
next
  case (PushModel name insecure stream)
  then show ?thesis by (simp add: push_model_def exhaust_client)
qed (simp_all add: generate_chat_completion_def create_model_def blob_exists_def
       list_local_models_def show_model_info_def copy_model_def delete_model_def
       post_request_eq get_request_eq delete_request_eq head_request_eq Let_def)

lemma run_calls_client: "client (run_calls net cs s) = client s"
  by (induction cs arbitrary: s) (simp_all add: run_call_client)

lemma gen_next_client: "client (snd (gen_next net g s)) = client s"
  by (cases g) (simp_all add: requests_send_def Let_def split: sum.splits)

section \<open>Pull and push\<close>

text \<open>
  Claim C1. With \<open>stream\<close> true, \<open>pull_model\<close> and \<open>push_model\<close> give a lazy sequence of the
  non-empty lines of the response, in arrival order; with \<open>stream\<close> false the result should
  be the pair of the status code and the parsed JSON body instead of a sequence. The
  streaming half holds (\<open>exhaust_Created_stream\<close>). The other half does not: both methods
  contain \<open>yield\<close>, so the call \<open>pull_model("llama2", stream=False)\<close> returns a generator
  object and sends nothing; consuming that generator sends the request, yields no line,
  and the pair the \<open>return\<close> statement computes only travels inside \<open>StopIteration\<close>.
\<close>

theorem pull_push_without_stream_return_generator:
  "fst (pull_model (PStr ''llama2'') (PBool False) False example_state)
     = ResGenerator (Created ''pull'' (PStr ''llama2'') (PBool False) False)
   \<and> fst (pull_model (PStr ''llama2'') (PBool False) False example_state)
     \<noteq> ResTuple 200 (PDict [(''status'', PStr ''success'')])
   \<and> sent (snd (pull_model (PStr ''llama2'') (PBool False) False example_state)) = []
   \<and> fst (push_model (PStr ''llama2'') (PBool False) False example_state)
     = ResGenerator (Created ''push'' (PStr ''llama2'') (PBool False) False)
   \<and> fst (push_model (PStr ''llama2'') (PBool False) False example_state)
     \<noteq> ResTuple 200 (PDict [(''status'', PStr ''success'')])
   \<and> fst (exhaust answering_transport
          (Created ''pull'' (PStr ''llama2'') (PBool False) False) example_state) = []
   \<and> fst (snd (exhaust answering_transport
          (Created ''pull'' (PStr ''llama2'') (PBool False) False) example_state))
       = StopIteration (Some (200, PDict [(''status'', PStr ''success'')]))
   \<and> fst (exhaust answering_transport
          (Created ''pull'' (PStr ''llama2'') (PBool False) True) example_state)
       = [''pulling manifest'', ''success'']"
  by (simp add: pull_model_def push_model_def example_state_def exhaust_Created_no_stream
        exhaust_Created_stream answering_transport_def)

section \<open>Blob existence\<close>

text \<open>
  Claim C2, as amended. \<open>blob_exists\<close> sends one HEAD request to \<open>blobs/{digest}\<close> under the
  API address. When the transport answers, the result is true exactly if the status code
  is 200 (so false for 404 and for 500); when the transport raises, as on a connection
  failure, that exception reaches the caller.
\<close>

theorem blob_exists_status:
  "fst (blob_exists net digest s) =
     (case net \<lparr>req_method = HEAD, req_url = api_url (client s) @ ''/blobs/'' @ digest,
                req_body = NoBody, req_stream = False\<rparr> of
        Inl e \<Rightarrow> Inl e
      | Inr response \<Rightarrow> Inr (status_code response = 200))"
  by (simp add: blob_exists_def head_request_eq Let_def)

text \<open>
  The claim as first stated also promised false on a connection failure. Against a server
  that cannot be reached the call raises \<open>ConnectionError\<close> instead of returning false.
\<close>

theorem blob_exists_connection_failure:
  "fst (blob_exists refusing_transport ''sha256:29fdb92e'' example_state)
     = Inl (PyError ConnectionError ''Connection refused'')
   \<and> fst (blob_exists refusing_transport ''sha256:29fdb92e'' example_state) \<noteq> Inr False"
  by (simp add: blob_exists_def head_request_eq refusing_transport_def Let_def)

section \<open>Request targets\<close>

text \<open>
  Claim C3. For a client constructed on \<open>base\<close>, every operation hands the transport one
  request, to \<open>{base}/api/{endpoint}\<close>; the exception is \<open>create_blob\<close>, whose request (sent
  when the file can be opened) goes to the bare string \<open>blobs/{digest}\<close>.
\<close>

theorem request_urls:
  assumes "client s = Ollama_init base"
  shows "map req_url (new_requests s (run_call net c s)) =
    (case c of
       CreateBlob digest file_path \<Rightarrow>
         (case files s file_path of
            Some (RegularFile bytes) \<Rightarrow> [''blobs/'' @ digest]
          | _ \<Rightarrow> [])
     | _ \<Rightarrow> [base @ ''/api/'' @ endpoint_of c])"
proof (cases c)
  case (GenerateCompletion model prompt fmt options system template ctx stream raw)
  obtain d where "validate_options allowed_options (or_empty options) = Inr d"
    using validate_options_map_of by blast
  with GenerateCompletion assms show ?thesis
    by (simp add: generate_completion_def post_request_eq Ollama_init_def Let_def)
next
  case (GenerateEmbeddings model prompt additional_options)
  with assms show ?thesis
    by (simp add: generate_embeddings_def validate_options_empty_allowlist post_request_eq Ollama_init_def Let_def)
next
  case (CreateBlob digest file_path)
  then show ?thesis
    by (auto simp: create_blob_def os_path_exists_def open_rb_def upload_handler_def
          requests_send_def Let_def new_requests_def
          split: option.splits fs_entry.splits sum.splits)
next
  case (PullModel name insecure stream)
  with assms show ?thesis
    by (simp add: pull_model_def exhaust_Created_state Ollama_init_def)
next
  case (PushModel name insecure stream)
  with assms show ?thesis
    by (simp add: push_model_def exhaust_Created_state Ollama_init_def)
qed (use assms in \<open>simp_all add: generate_chat_completion_def create_model_def blob_exists_def
       list_local_models_def show_model_info_def copy_model_def delete_model_def
       post_request_eq get_request_eq delete_request_eq head_request_eq Ollama_init_def Let_def\<close>)

text \<open>
  At the default address: \<open>delete_model("llama2")\<close> goes to
  \<open>http://localhost:11434/api/delete\<close>, the upload of \<open>model.bin\<close> to \<open>blobs/sha256:29fdb92e\<close>.
\<close>

theorem request_urls_witness:
  "client example_state = Ollama_init default_base_url
   \<and> map req_url (new_requests example_state
         (run_call answering_transport (DeleteModel (PStr ''llama2'')) example_state))
       = [''http://localhost:11434/api/delete'']
   \<and> map req_url (new_requests example_state
         (run_call answering_transport (CreateBlob ''sha256:29fdb92e'' ''model.bin'') example_state))
       = [''blobs/sha256:29fdb92e'']"
proof -
  have c: "client example_state = Ollama_init default_base_url"
    by (simp add: example_state_def)
  have f: "files example_state ''model.bin'' = Some (RegularFile ''GGUF'')"
    by (simp add: example_state_def example_files_def)
  show ?thesis
    using c f
      request_urls [OF c, of answering_transport "DeleteModel (PStr ''llama2'')"]
      request_urls [OF c, of answering_transport "CreateBlob ''sha256:29fdb92e'' ''model.bin''"]
    by (simp add: default_base_url_def)
qed

section \<open>Options\<close>

text \<open>
  Claim C4. The \<open>options\<close> field of the payload that \<open>generate_completion\<close> sends holds
  exactly the keys of the input that are on the allow-list, each with the value it was
  given (for an input without repeated keys it is the input with the other entries
  removed, in order); \<open>{"temperature": 0.5, "bogus": 1}\<close> becomes \<open>{"temperature": 0.5}\<close>.
\<close>

theorem generate_completion_options_allowlisted:
  "(\<exists>d. map (json_field ''options'')
            (new_requests s (snd (generate_completion net model prompt format (Some options)
                                    system template context stream raw s)))
          = [Some (PDict d)]
        \<and> (\<forall>k. map_of d k = (if k \<in> set allowed_options then map_of options k else None))
        \<and> (distinct (map fst options) \<longrightarrow>
              d = filter (\<lambda>(k, v). k \<in> set allowed_options) options))
   \<and> map (json_field ''options'')
        (new_requests s (snd (generate_completion net (PStr ''llama2'') (PStr ''hello'') (PStr ''json'')
            (Some [(''temperature'', PFloat (1 / 2)), (''bogus'', PInt 1)])
            PNone PNone PNone (PBool False) (PBool False) s)))
       = [Some (PDict [(''temperature'', PFloat (1 / 2))])]"
proof
  obtain d where d: "validate_options allowed_options (or_empty (Some options)) = Inr d"
    "map_of d = (\<lambda>k. if k \<in> set allowed_options then map_of (or_empty (Some options)) k else None)"
    using validate_options_map_of by blast
  have o: "or_empty (Some options) = options"
    by (simp add: or_empty_def)
  have a: "map (json_field ''options'')
            (new_requests s (snd (generate_completion net model prompt format (Some options)
                                    system template context stream raw s)))
          = [Some (PDict d)]"
    using d(1) by (simp add: generate_completion_def post_request_eq Let_def)
  have b: "\<forall>k. map_of d k = (if k \<in> set allowed_options then map_of options k else None)"
    using d(2) o by simp
  have c: "distinct (map fst options) \<longrightarrow>
              d = filter (\<lambda>(k, v). k \<in> set allowed_options) options"
    using d(1) o validate_options_filter [of options allowed_options] by auto
  show "\<exists>d. map (json_field ''options'')
            (new_requests s (snd (generate_completion net model prompt format (Some options)
                                    system template context stream raw s)))
          = [Some (PDict d)]
        \<and> (\<forall>k. map_of d k = (if k \<in> set allowed_options then map_of options k else None))
        \<and> (distinct (map fst options) \<longrightarrow>
              d = filter (\<lambda>(k, v). k \<in> set allowed_options) options)"
    by (rule exI [where x = d]) (intro conjI a b c)
next
  have "validate_options allowed_options [(''temperature'', PFloat (1 / 2)), (''bogus'', PInt 1)]
          = Inr [(''temperature'', PFloat (1 / 2))]"
    by (simp add: validate_options_def allowed_options_def)
  then show "map (json_field ''options'')
        (new_requests s (snd (generate_completion net (PStr ''llama2'') (PStr ''hello'') (PStr ''json'')
            (Some [(''temperature'', PFloat (1 / 2)), (''bogus'', PInt 1)])
            PNone PNone PNone (PBool False) (PBool False) s)))
       = [Some (PDict [(''temperature'', PFloat (1 / 2))])]"
    by (simp add: generate_completion_def or_empty_def post_request_eq Let_def)
qed

text \<open>An input with two listed keys around an unlisted one.\<close>

theorem generate_completion_options_allowlisted_witness:
  "distinct (map fst [(''top_k'', PInt 40), (''bogus'', PInt 1), (''seed'', PInt 7)])
   \<and> map (json_field ''options'')
        (new_requests example_state (snd (generate_completion answering_transport
            (PStr ''llama2'') (PStr ''hello'') (PStr ''json'')
            (Some [(''top_k'', PInt 40), (''bogus'', PInt 1), (''seed'', PInt 7)])
            PNone PNone PNone (PBool False) (PBool False) example_state)))
       = [Some (PDict [(''top_k'', PInt 40), (''seed'', PInt 7)])]"
proof -
  have dist: "distinct (map fst [(''top_k'', PInt 40), (''bogus'', PInt 1), (''seed'', PInt 7)])"
    by simp
  have flt: "filter (\<lambda>(k, v). k \<in> set allowed_options)
               [(''top_k'', PInt 40), (''bogus'', PInt 1), (''seed'', PInt 7)]
             = [(''top_k'', PInt 40), (''seed'', PInt 7)]"
    by (simp add: allowed_options_def)
  from generate_completion_options_allowlisted
         [of example_state answering_transport "PStr ''llama2''" "PStr ''hello''" "PStr ''json''"
             "[(''top_k'', PInt 40), (''bogus'', PInt 1), (''seed'', PInt 7)]"
             PNone PNone PNone "PBool False" "PBool False"]
  show ?thesis using dist flt by auto
qed

text \<open>
  Claim C5. Whatever \<open>additional_options\<close> holds, the \<open>options\<close> field of the payload that
  \<open>generate_embeddings\<close> sends is the empty dictionary.
\<close>

theorem generate_embeddings_options_empty:
  "map (json_field ''options'')
     (new_requests s (snd (generate_embeddings net model prompt additional_options s)))
   = [Some (PDict [])]"
  by (simp add: generate_embeddings_def validate_options_empty_allowlist post_request_eq Let_def)

text \<open>
  Claim C8. \<open>generate_chat_completion\<close> sends one POST, to the \<open>chat\<close> endpoint, whose
  \<open>options\<close> field is the input dictionary unchanged, and returns the status code paired
  with the response that the transport gives for that request.
\<close>

theorem generate_chat_completion_options_unfiltered:
  "\<exists>req. new_requests s (snd (generate_chat_completion net model messages format (Some options)
                                template stream s)) = [req]
     \<and> req_method req = POST
     \<and> req_url req = api_url (client s) @ ''/chat''
     \<and> json_field ''options'' req = Some (PDict options)
     \<and> fst (generate_chat_completion net model messages format (Some options) template stream s)
         = (case net req of
              Inl e \<Rightarrow> Inl e
            | Inr response \<Rightarrow> Inr (status_code response, response))"
  by (simp add: generate_chat_completion_def or_empty_def post_request_eq Let_def)

text \<open>
  Claim C10. Passing \<open>None\<close> as the options of \<open>generate_completion\<close>,
  \<open>generate_chat_completion\<close> or \<open>generate_embeddings\<close> is the same as passing an empty
  dictionary, and the \<open>options\<close> field sent is the empty dictionary.
\<close>

theorem none_options_as_empty_dict:
  "generate_completion net model prompt format None system template context stream raw s
     = generate_completion net model prompt format (Some []) system template context stream raw s
   \<and> map (json_field ''options'')
        (new_requests s (snd (generate_completion net model prompt format None
                                system template context stream raw s)))
       = [Some (PDict [])]
   \<and> generate_chat_completion net model messages format None template stream s
     = generate_chat_completion net model messages format (Some []) template stream s
   \<and> map (json_field ''options'')
        (new_requests s (snd (generate_chat_completion net model messages format None
                                template stream s)))
       = [Some (PDict [])]
   \<and> generate_embeddings net model prompt None s = generate_embeddings net model prompt (Some []) s
   \<and> map (json_field ''options'')
        (new_requests s (snd (generate_embeddings net model prompt None s)))
       = [Some (PDict [])]"
  by (simp add: generate_completion_def generate_chat_completion_def generate_embeddings_def
        or_empty_def validate_options_def post_request_eq Let_def)

section \<open>Blob upload\<close>

text \<open>
  Claim C6. When the local file exists and the transport raises an exception during the
  upload, \<open>create_blob\<close> returns 500 (after printing a message) and the exception does not
  reach the caller.
\<close>

theorem create_blob_transport_exception:
  assumes "files s file_path = Some (RegularFile bytes)"
    and "net \<lparr>req_method = POST, req_url = ''blobs/'' @ digest,
              req_body = FilesBody [(''file'', bytes)], req_stream = False\<rparr> = Inl e"
    and "is_Exception e"
  shows "fst (create_blob net digest file_path s) = Inr 500
       \<and> stdout (snd (create_blob net digest file_path s))
           = stdout s @ [''Error uploading blob: '' @ str_of_error e]"
  using assms
  by (simp add: create_blob_def os_path_exists_def open_rb_def upload_handler_def
        requests_send_def Let_def)

text \<open>The upload of \<open>model.bin\<close> to a server that cannot be reached.\<close>

theorem create_blob_transport_exception_witness:
  "files example_state ''model.bin'' = Some (RegularFile ''GGUF'')
   \<and> refusing_transport \<lparr>req_method = POST, req_url = ''blobs/'' @ ''sha256:29fdb92e'',
              req_body = FilesBody [(''file'', ''GGUF'')], req_stream = False\<rparr>
       = Inl (PyError ConnectionError ''Connection refused'')
   \<and> is_Exception (PyError ConnectionError ''Connection refused'')
   \<and> fst (create_blob refusing_transport ''sha256:29fdb92e'' ''model.bin'' example_state) = Inr 500"
proof -
  have f: "files example_state ''model.bin'' = Some (RegularFile ''GGUF'')"
    by (simp add: example_state_def example_files_def)
  have n: "refusing_transport \<lparr>req_method = POST, req_url = ''blobs/'' @ ''sha256:29fdb92e'',
              req_body = FilesBody [(''file'', ''GGUF'')], req_stream = False\<rparr>
       = Inl (PyError ConnectionError ''Connection refused'')"
    by (simp add: refusing_transport_def)
  have e: "is_Exception (PyError ConnectionError ''Connection refused'')"
    by simp
  from create_blob_transport_exception [where net = refusing_transport, OF f n e] f n e
  show ?thesis by simp
qed

text \<open>
  Claim C7. For a path that does not exist, \<open>create_blob\<close> raises \<open>FileNotFoundError\<close> and
  hands nothing to the transport: the state is the one it started from.
\<close>

theorem create_blob_missing_file:
  assumes "\<not> os_path_exists s file_path"
  shows "create_blob net digest file_path s
           = (Inl (PyError FileNotFoundError (''File not found: '' @ file_path)), s)
       \<and> new_requests s (snd (create_blob net digest file_path s)) = []"
  using assms by (simp add: create_blob_def)

text \<open>A path that the example file system does not have.\<close>

theorem create_blob_missing_file_witness:
  "\<not> os_path_exists example_state ''missing.bin''
   \<and> fst (create_blob answering_transport ''sha256:29fdb92e'' ''missing.bin'' example_state)
       = Inl (PyError FileNotFoundError ''File not found: missing.bin'')
   \<and> sent (snd (create_blob answering_transport ''sha256:29fdb92e'' ''missing.bin'' example_state)) = []"
proof -
  have m: "\<not> os_path_exists example_state ''missing.bin''"
    by (simp add: os_path_exists_def example_state_def example_files_def)
  from create_blob_missing_file [OF m, of answering_transport "''sha256:29fdb92e''"] m
  show ?thesis by (simp add: example_state_def)
qed

section \<open>The client's address\<close>

text \<open>
  Claim C9. No sequence of operations changes \<open>base_url\<close> or \<open>api_url\<close>: after any calls
  they have the values the constructor gave them; a single step of a generator leaves
  them alone as well.
\<close>

theorem client_fields_immutable:
  "base_url (client (run_calls net cs s)) = base_url (client s)
   \<and> api_url (client (run_calls net cs s)) = api_url (client s)
   \<and> base_url (client (run_calls net cs (s\<lparr>client := Ollama_init base\<rparr>))) = base
   \<and> api_url (client (run_calls net cs (s\<lparr>client := Ollama_init base\<rparr>))) = base @ ''/api''
   \<and> client (snd (gen_next net g s)) = client s"
  by (simp add: run_calls_client gen_next_client Ollama_init_def)

end
